theory Spec2Isabelle
  imports Complex_Main "HOL-Library.Sublist"
begin

section \<open>JavaScript values and built-ins used by the program\<close>

text \<open>
  A finite JavaScript number is modelled as a real: rounding of IEEE doubles is not
  modelled. A value computed from the amounts of a transaction is a \<open>jsnum\<close>: a finite
  number, an infinity, \<open>NaN\<close> or \<open>undefined\<close> (an amount that the received object
  does not have). A string is a list of 8-bit characters.

  Two built-ins are parameters of the model: the text of a number that is not an
  integer below \<open>2^53\<close> (the shortest round-trip digits of the double), and
  \<open>Date.now()\<close>.
\<close>

record runtime =
  fractionText :: "real \<Rightarrow> string"
  dateNow :: real

definition digit_char :: "int \<Rightarrow> char" where
  "digit_char n = ''0123456789'' ! nat n"

function digits :: "int \<Rightarrow> string" where
  "digits n =
     (if n < 10 then [digit_char n]
      else digits (n div 10) @ [digit_char (n mod 10)])"
  by pat_completeness auto
termination
  by (relation "measure nat") auto

declare digits.simps [simp del]

text \<open>\<open>Number::toString\<close>: an integer below \<open>2^53\<close> prints as its decimal digits.\<close>

definition numberToString :: "runtime \<Rightarrow> real \<Rightarrow> string" where
  "numberToString rt x =
     (if x = of_int \<lfloor>x\<rfloor> \<and> \<bar>x\<bar> < 2 ^ 53
      then (if x < 0 then ''-'' else []) @ digits \<lfloor>\<bar>x\<bar>\<rfloor>
      else fractionText rt x)"

text \<open>
  \<open>Number.prototype.toFixed\<close>: the nearest multiple of \<open>10^-d\<close>, the larger one on a
  tie, with exactly \<open>d\<close> digits after the point. The model rounds the real, where the
  program rounds the double nearest to it; only the description text depends on it.
\<close>

definition toFixed :: "runtime \<Rightarrow> real \<Rightarrow> nat \<Rightarrow> string" where
  "toFixed rt x d =
     (if \<bar>x\<bar> \<ge> 10 ^ 21 then numberToString rt x
      else
        (let n = \<lfloor>\<bar>x\<bar> * 10 ^ d + 1 / 2\<rfloor>;
             whole = digits (n div 10 ^ d);
             frac = digits (n mod 10 ^ d)
         in (if x < 0 then ''-'' else []) @ whole
            @ (if d = 0 then []
               else ''.'' @ replicate (d - length frac) (CHR ''0'') @ frac)))"

datatype js_error = TypeError | Error string

subsection \<open>Numbers that may be missing or not finite\<close>

datatype jsnum = Finite real | PosInfinity | NegInfinity | NaN | Undefined

text \<open>Reading a numeric property that may be absent.\<close>

definition of_field :: "real option \<Rightarrow> jsnum" where
  "of_field v = (case v of None \<Rightarrow> Undefined | Some x \<Rightarrow> Finite x)"

text \<open>\<open>a + b\<close> on numbers; \<open>undefined\<close> converts to \<open>NaN\<close>.\<close>

fun js_add :: "jsnum \<Rightarrow> jsnum \<Rightarrow> jsnum" where
  "js_add (Finite a) (Finite b) = Finite (a + b)"
| "js_add NaN b = NaN"
| "js_add a NaN = NaN"
| "js_add Undefined b = NaN"
| "js_add a Undefined = NaN"
| "js_add PosInfinity NegInfinity = NaN"
| "js_add NegInfinity PosInfinity = NaN"
| "js_add PosInfinity b = PosInfinity"
| "js_add a PosInfinity = PosInfinity"
| "js_add NegInfinity b = NegInfinity"
| "js_add a NegInfinity = NegInfinity"

text \<open>\<open>Math.abs\<close>.\<close>

fun js_abs :: "jsnum \<Rightarrow> jsnum" where
  "js_abs (Finite a) = Finite \<bar>a\<bar>"
| "js_abs PosInfinity = PosInfinity"
| "js_abs NegInfinity = PosInfinity"
| "js_abs NaN = NaN"
| "js_abs Undefined = NaN"

text \<open>\<open>a < b\<close> on numbers: false when either side is \<open>NaN\<close> or \<open>undefined\<close>.\<close>

fun js_less :: "jsnum \<Rightarrow> jsnum \<Rightarrow> bool" where
  "js_less (Finite a) (Finite b) = (a < b)"
| "js_less NaN b = False"
| "js_less a NaN = False"
| "js_less Undefined b = False"
| "js_less a Undefined = False"
| "js_less PosInfinity b = False"
| "js_less a NegInfinity = False"
| "js_less a PosInfinity = True"
| "js_less NegInfinity b = True"

text \<open>\<open>Math.max(a, b)\<close>: \<open>NaN\<close> when either argument is not a number.\<close>

definition js_max :: "jsnum \<Rightarrow> jsnum \<Rightarrow> jsnum" where
  "js_max a b =
     (if a = NaN \<or> a = Undefined \<or> b = NaN \<or> b = Undefined then NaN
      else if js_less a b then b else a)"

text \<open>
  \<open>a / b\<close> for a finite divisor: \<open>0 / 0\<close> is \<open>NaN\<close>, another number over 0 is an
  infinity.
\<close>

definition js_divide :: "jsnum \<Rightarrow> real \<Rightarrow> jsnum" where
  "js_divide a b =
     (case a of
        Finite x \<Rightarrow>
          (if b \<noteq> 0 then Finite (x / b)
           else if x = 0 then NaN
           else if x > 0 then PosInfinity
           else NegInfinity)
      | PosInfinity \<Rightarrow> (if b < 0 then NegInfinity else PosInfinity)
      | NegInfinity \<Rightarrow> (if b < 0 then PosInfinity else NegInfinity)
      | NaN \<Rightarrow> NaN
      | Undefined \<Rightarrow> NaN)"

text \<open>\<open>a || b\<close> on such values: \<open>0\<close>, \<open>NaN\<close> and \<open>undefined\<close> are falsy.\<close>

definition js_or :: "jsnum \<Rightarrow> jsnum \<Rightarrow> jsnum" where
  "js_or a b = (if a = Finite 0 \<or> a = NaN \<or> a = Undefined then b else a)"

text \<open>The text of such a value in a template literal, and \<open>toFixed\<close> on it.\<close>

definition js_text :: "runtime \<Rightarrow> jsnum \<Rightarrow> string" where
  "js_text rt a =
     (case a of
        Finite x \<Rightarrow> numberToString rt x
      | PosInfinity \<Rightarrow> ''Infinity''
      | NegInfinity \<Rightarrow> ''-Infinity''
      | NaN \<Rightarrow> ''NaN''
      | Undefined \<Rightarrow> ''undefined'')"

definition js_toFixed :: "runtime \<Rightarrow> jsnum \<Rightarrow> nat \<Rightarrow> string" where
  "js_toFixed rt a d =
     (case a of
        Finite x \<Rightarrow> toFixed rt x d
      | PosInfinity \<Rightarrow> ''Infinity''
      | NegInfinity \<Rightarrow> ''-Infinity''
      | NaN \<Rightarrow> ''NaN''
      | Undefined \<Rightarrow> ''NaN'')"

text \<open>\<open>a || b\<close> on numbers and on strings: the left operand unless it is falsy.\<close>

definition or_num :: "real \<Rightarrow> real \<Rightarrow> real" where
  "or_num a b = (if a = 0 then b else a)"

definition or_str :: "string \<Rightarrow> string \<Rightarrow> string" where
  "or_str a b = (if a = [] then b else a)"

text \<open>\<open>String.prototype.includes\<close>: the pattern occurs as a contiguous substring.\<close>

fun str_includes :: "string \<Rightarrow> string \<Rightarrow> bool" where
  "str_includes [] p = (p = [])"
| "str_includes (c # s) p = (prefix p (c # s) \<or> str_includes s p)"

text \<open>\<open>String.prototype.toLowerCase\<close> on ASCII text.\<close>

definition lower_char :: "char \<Rightarrow> char" where
  "lower_char c =
     (case map_of (zip ''ABCDEFGHIJKLMNOPQRSTUVWXYZ'' ''abcdefghijklmnopqrstuvwxyz'') c of
        Some l \<Rightarrow> l
      | None \<Rightarrow> c)"

definition toLowerCase :: "string \<Rightarrow> string" where
  "toLowerCase s = map lower_char s"

text \<open>\<open>xs?.length > 0\<close> and \<open>xs && xs.length > 0\<close> for an array that may be absent.\<close>

definition has_items :: "'a list option \<Rightarrow> bool" where
  "has_items xs = (case xs of None \<Rightarrow> False | Some l \<Rightarrow> length l > 0)"

definition items :: "'a list option \<Rightarrow> 'a list" where
  "items xs = (case xs of None \<Rightarrow> [] | Some l \<Rightarrow> l)"

subsection \<open>\<open>JSON.stringify\<close>\<close>

datatype json = JNum real | JStr string | JArr "json list" | JObj "(string \<times> json) list"

fun join :: "string \<Rightarrow> string list \<Rightarrow> string" where
  "join sep [] = []"
| "join sep [x] = x"
| "join sep (x # y # ys) = x @ sep @ join sep (y # ys)"

definition hex_digit :: "nat \<Rightarrow> char" where
  "hex_digit n = ''0123456789abcdef'' ! (n mod 16)"

definition escape_char :: "char \<Rightarrow> string" where
  "escape_char c =
     (if c = CHR 0x22 then [CHR 0x5C, CHR 0x22]
      else if c = CHR 0x5C then [CHR 0x5C, CHR 0x5C]
      else if c = CHR 0x08 then [CHR 0x5C, CHR ''b'']
      else if c = CHR 0x0C then [CHR 0x5C, CHR ''f'']
      else if c = CHR 0x0A then [CHR 0x5C, CHR ''n'']
      else if c = CHR 0x0D then [CHR 0x5C, CHR ''r'']
      else if c = CHR 0x09 then [CHR 0x5C, CHR ''t'']
      else if (of_char c :: nat) < 32
        then [CHR 0x5C] @ ''u00'' @ [hex_digit (of_char c div 16), hex_digit (of_char c)]
      else [c])"

definition quote :: "string \<Rightarrow> string" where
  "quote s = [CHR 0x22] @ concat (map escape_char s) @ [CHR 0x22]"

fun stringify :: "(real \<Rightarrow> string) \<Rightarrow> json \<Rightarrow> string" where
  "stringify num (JNum x) = num x"
| "stringify num (JStr s) = quote s"
| "stringify num (JArr xs) = ''['' @ join '','' (map (stringify num) xs) @ '']''"
| "stringify num (JObj kvs) =
     ''{'' @ join '','' (map (\<lambda>(k, v). quote k @ '':'' @ stringify num v) kvs) @ ''}''"

section \<open>Raw transactions (\<open>HeliusTransaction\<close>)\<close>

text \<open>
  The records follow the interface \<open>HeliusTransaction\<close>. The code guards every array
  with \<open>?.\<close> or \<open>&&\<close>, so an array may be absent (\<open>None\<close>). An amount or a balance
  change may be absent from a received object as well (\<open>None\<close>, read as
  \<open>undefined\<close>). \<open>source\<close> is not declared in the interface but is read by
  \<open>classifyTradeType\<close>; it is \<open>None\<close> when the property is absent.
\<close>

record NativeTransfer =
  nt_fromUserAccount :: string
  nt_toUserAccount :: string
  nt_amount :: "real option"

record TokenTransfer =
  tt_fromUserAccount :: string
  tt_toUserAccount :: string
  tt_mint :: string
  tt_amount :: "real option"

record TokenBalanceChange =
  tbc_mint :: string
  tbc_amount :: "real option"

record AccountData =
  account :: string
  nativeBalanceChange :: "real option"
  tokenBalanceChanges :: "TokenBalanceChange list option"

record HeliusTransaction =
  signature :: string
  type :: string
  timestamp :: real
  slot :: real
  fee :: real
  nativeTransfers :: "NativeTransfer list option"
  tokenTransfers :: "TokenTransfer list option"
  accountData :: "AccountData list option"
  source :: "string option"

text \<open>The object as \<open>JSON.stringify\<close> sees it; an absent property is left out.\<close>

definition opt_prop :: "string \<Rightarrow> ('a \<Rightarrow> json) \<Rightarrow> 'a option \<Rightarrow> (string \<times> json) list" where
  "opt_prop k f v = (case v of None \<Rightarrow> [] | Some x \<Rightarrow> [(k, f x)])"

definition json_of_native :: "NativeTransfer \<Rightarrow> json" where
  "json_of_native t = JObj
     ([(''fromUserAccount'', JStr (nt_fromUserAccount t)),
       (''toUserAccount'', JStr (nt_toUserAccount t))]
      @ opt_prop ''amount'' JNum (nt_amount t))"

definition json_of_token :: "TokenTransfer \<Rightarrow> json" where
  "json_of_token t = JObj
     ([(''fromUserAccount'', JStr (tt_fromUserAccount t)),
       (''toUserAccount'', JStr (tt_toUserAccount t)),
       (''mint'', JStr (tt_mint t))]
      @ opt_prop ''amount'' JNum (tt_amount t))"

definition json_of_change :: "TokenBalanceChange \<Rightarrow> json" where
  "json_of_change c =
     JObj ([(''mint'', JStr (tbc_mint c))] @ opt_prop ''amount'' JNum (tbc_amount c))"

definition json_of_account :: "AccountData \<Rightarrow> json" where
  "json_of_account a = JObj
     ([(''account'', JStr (account a))]
      @ opt_prop ''nativeBalanceChange'' JNum (nativeBalanceChange a)
      @ opt_prop ''tokenBalanceChanges'' (\<lambda>cs. JArr (map json_of_change cs))
          (tokenBalanceChanges a))"

definition json_of_tx :: "HeliusTransaction \<Rightarrow> json" where
  "json_of_tx tx = JObj
     ([(''signature'', JStr (signature tx)),
       (''type'', JStr (type tx)),
       (''timestamp'', JNum (timestamp tx)),
       (''slot'', JNum (slot tx)),
       (''fee'', JNum (fee tx))]
      @ opt_prop ''nativeTransfers'' (\<lambda>ts. JArr (map json_of_native ts)) (nativeTransfers tx)
      @ opt_prop ''tokenTransfers'' (\<lambda>ts. JArr (map json_of_token ts)) (tokenTransfers tx)
      @ opt_prop ''accountData'' (\<lambda>as. JArr (map json_of_account as)) (accountData tx)
      @ opt_prop ''source'' JStr (source tx))"

definition JSON_stringify :: "runtime \<Rightarrow> HeliusTransaction \<Rightarrow> string" where
  "JSON_stringify rt tx = stringify (numberToString rt) (json_of_tx tx)"

section \<open>Transaction normalizer (\<open>processTransaction\<close>, \<open>getTransactions\<close>)\<close>

record ProcessedTransaction =
  p_signature :: string
  p_type :: string
  p_amount :: jsnum
  p_timestamp :: real
  p_status :: string
  p_tokenSymbol :: string
  p_fee :: real
  p_description :: string

definition LAMPORTS_PER_SOL :: real where
  "LAMPORTS_PER_SOL = 1000000000"

definition MIN_SOL_AMOUNT :: real where
  "MIN_SOL_AMOUNT = 1 / 1000"

text \<open>The four mutable locals of \<open>processTransaction\<close>.\<close>

record locals =
  l_type :: string
  l_amount :: jsnum
  l_tokenSymbol :: string
  l_description :: string

definition init_locals :: "HeliusTransaction \<Rightarrow> locals" where
  "init_locals tx =
     \<lparr>l_type = or_str (type tx) ''Unknown'', l_amount = Finite 0,
      l_tokenSymbol = ''SOL'', l_description = ''''\<rparr>"

text \<open>Process native SOL transfers: only the first one is read.\<close>

definition native_step :: "runtime \<Rightarrow> HeliusTransaction \<Rightarrow> string \<Rightarrow> locals \<Rightarrow> locals" where
  "native_step rt tx walletAddress l =
     (case nativeTransfers tx of
        Some (transfer # _) \<Rightarrow>
          (let amount = js_divide (of_field (nt_amount transfer)) LAMPORTS_PER_SOL;
               l1 = l\<lparr>l_amount := amount\<rparr>
           in if nt_fromUserAccount transfer = walletAddress then
                l1\<lparr>l_type := ''Send SOL'',
                   l_description := ''Sent '' @ js_toFixed rt amount 3 @ '' SOL''\<rparr>
              else if nt_toUserAccount transfer = walletAddress then
                l1\<lparr>l_type := ''Receive SOL'',
                   l_description := ''Received '' @ js_toFixed rt amount 3 @ '' SOL''\<rparr>
              else l1)
      | _ \<Rightarrow> l)"

text \<open>Process token transfers: a plain \<open>if\<close>, so it also runs after the native branch.\<close>

definition token_step :: "runtime \<Rightarrow> HeliusTransaction \<Rightarrow> string \<Rightarrow> locals \<Rightarrow> locals" where
  "token_step rt tx walletAddress l =
     (case tokenTransfers tx of
        Some (transfer # _) \<Rightarrow>
          (let amount = of_field (tt_amount transfer);
               l1 = l\<lparr>l_amount := amount, l_tokenSymbol := ''Token''\<rparr>
           in if tt_fromUserAccount transfer = walletAddress then
                l1\<lparr>l_type := ''Send Token'',
                   l_description := ''Sent '' @ js_text rt amount @ '' Token''\<rparr>
              else if tt_toUserAccount transfer = walletAddress then
                l1\<lparr>l_type := ''Receive Token'',
                   l_description := ''Received '' @ js_text rt amount @ '' Token''\<rparr>
              else l1)
      | _ \<Rightarrow> l)"

text \<open>Check for swaps in the lower-cased serialized transaction.\<close>

definition is_swap_text :: "runtime \<Rightarrow> HeliusTransaction \<Rightarrow> bool" where
  "is_swap_text rt tx =
     (let txString = toLowerCase (JSON_stringify rt tx)
      in str_includes txString ''swap'' \<or> str_includes txString ''jupiter''
         \<or> str_includes txString ''orca'')"

definition swap_step :: "runtime \<Rightarrow> HeliusTransaction \<Rightarrow> locals \<Rightarrow> locals" where
  "swap_step rt tx l =
     (if is_swap_text rt tx then l\<lparr>l_type := ''Swap'', l_description := ''Token Swap''\<rparr>
      else l)"

text \<open>The locals after the three steps, in the order of the source.\<close>

definition resolved_locals :: "runtime \<Rightarrow> HeliusTransaction \<Rightarrow> string \<Rightarrow> locals" where
  "resolved_locals rt tx walletAddress =
     swap_step rt tx
       (token_step rt tx walletAddress
          (native_step rt tx walletAddress (init_locals tx)))"

text \<open>
  The body of the \<open>try\<close> block. The transaction may be \<open>null\<close> or \<open>undefined\<close>
  (\<open>None\<close>); reading \<open>tx.type\<close> then throws a \<open>TypeError\<close>.
\<close>

definition processTransaction_try ::
  "runtime \<Rightarrow> HeliusTransaction option \<Rightarrow> string \<Rightarrow> js_error + ProcessedTransaction option" where
  "processTransaction_try rt txo walletAddress =
     (case txo of
        None \<Rightarrow> Inl TypeError
      | Some tx \<Rightarrow>
          (let l = resolved_locals rt tx walletAddress
           in if l_tokenSymbol l = ''SOL'' \<and> js_less (l_amount l) (Finite MIN_SOL_AMOUNT)
              then Inr None
              else if l_amount l = Finite 0 then Inr None
              else Inr (Some
                \<lparr>p_signature = or_str (signature tx) '''',
                 p_type = l_type l,
                 p_amount = l_amount l,
                 p_timestamp = or_num (timestamp tx) (dateNow rt),
                 p_status = ''success'',
                 p_tokenSymbol = l_tokenSymbol l,
                 p_fee = or_num (fee tx) 0,
                 p_description = l_description l\<rparr>)))"

text \<open>
  \<open>processTransaction\<close>: the \<open>catch\<close> clause logs the error (the logger appends to an
  in-memory buffer and prints; it has no raising operation) and returns \<open>null\<close>.
\<close>

definition processTransaction ::
  "runtime \<Rightarrow> HeliusTransaction option \<Rightarrow> string \<Rightarrow> js_error + ProcessedTransaction option" where
  "processTransaction rt txo walletAddress =
     (case processTransaction_try rt txo walletAddress of
        Inl error \<Rightarrow> Inr None
      | Inr result \<Rightarrow> Inr result)"

text \<open>
  \<open>Array.prototype.map\<close> with a callback that may throw: the first throw ends the
  whole call.
\<close>

fun map_throwing :: "('a \<Rightarrow> js_error + 'b) \<Rightarrow> 'a list \<Rightarrow> js_error + 'b list" where
  "map_throwing f [] = Inr []"
| "map_throwing f (x # xs) =
     (case f x of
        Inl e \<Rightarrow> Inl e
      | Inr y \<Rightarrow> (case map_throwing f xs of Inl e \<Rightarrow> Inl e | Inr ys \<Rightarrow> Inr (y # ys)))"

text \<open>
  \<open>getTransactions\<close>, from the fetched history \<open>txs\<close> on: map, drop the \<open>null\<close>s,
  sort by timestamp, most recent first (\<open>Array.prototype.sort\<close> is stable). Any throw
  is caught and replaced by \<open>Error('Failed to fetch transactions')\<close>.
\<close>

definition getTransactions ::
  "runtime \<Rightarrow> HeliusTransaction option list \<Rightarrow> string \<Rightarrow> js_error + ProcessedTransaction list" where
  "getTransactions rt txs address =
     (case map_throwing (\<lambda>tx. processTransaction rt tx address) txs of
        Inl error \<Rightarrow> Inl (Error ''Failed to fetch transactions'')
      | Inr results \<Rightarrow>
          Inr (sort_key (\<lambda>p. - p_timestamp p) (List.map_filter (\<lambda>r. r) results)))"

section \<open>Trade classifier (\<open>TransactionAnalyzer\<close>)\<close>

datatype trade_type = Buy | Sell | Unknown

definition tradePatterns :: "string list" where
  "tradePatterns =
     [''swap'', ''trade'', ''exchange'', ''jupiter'', ''orca'', ''raydium'', ''serum'',
      ''dex'', ''amm'', ''liquidity'', ''pool'', ''market'']"

definition isTradeTransaction :: "runtime \<Rightarrow> HeliusTransaction option \<Rightarrow> bool" where
  "isTradeTransaction rt txo =
     (case txo of
        None \<Rightarrow> False
      | Some tx \<Rightarrow>
          (let type = or_str (toLowerCase (type tx)) [];
               description = toLowerCase (JSON_stringify rt tx);
               hasTradePattern =
                 list_ex (\<lambda>pattern. str_includes type pattern \<or> str_includes description pattern)
                   tradePatterns;
               hasTransfers = (has_items (nativeTransfers tx) \<or> has_items (tokenTransfers tx));
               hasBalanceChanges =
                 list_ex (\<lambda>acct. nativeBalanceChange acct \<noteq> Some 0
                            \<or> has_items (tokenBalanceChanges acct))
                   (items (accountData tx))
           in hasTradePattern \<or> (hasTransfers \<and> hasBalanceChanges)))"

definition totalNativeOut :: "HeliusTransaction \<Rightarrow> jsnum" where
  "totalNativeOut tx =
     foldl (\<lambda>sum transfer.
              if Some (nt_fromUserAccount transfer) = source tx
              then js_add sum (of_field (nt_amount transfer))
              else sum)
       (Finite 0) (items (nativeTransfers tx))"

definition totalTokensOut :: "HeliusTransaction \<Rightarrow> jsnum" where
  "totalTokensOut tx =
     foldl (\<lambda>sum transfer.
              if Some (tt_fromUserAccount transfer) = source tx
              then js_add sum (of_field (tt_amount transfer))
              else sum)
       (Finite 0) (items (tokenTransfers tx))"

definition classifyTradeType :: "runtime \<Rightarrow> HeliusTransaction option \<Rightarrow> trade_type" where
  "classifyTradeType rt txo =
     (case txo of
        None \<Rightarrow> Unknown
      | Some tx \<Rightarrow>
          (let type = or_str (toLowerCase (type tx)) [];
               description = toLowerCase (JSON_stringify rt tx)
           in if str_includes type ''buy'' \<or> str_includes type ''swap_in'' then Buy
              else if str_includes type ''sell'' \<or> str_includes type ''swap_out'' then Sell
              else if has_items (nativeTransfers tx) \<and> js_less (Finite 0) (totalNativeOut tx)
                then Buy
              else if has_items (tokenTransfers tx) \<and> js_less (Finite 0) (totalTokensOut tx)
                then Sell
              else if str_includes description ''swap_exact_tokens_for_tokens''
                      \<or> str_includes description ''swap_exact_sol_for_tokens'' then Buy
              else if str_includes description ''swap_exact_tokens_for_sol''
                      \<or> str_includes description ''swap_tokens_for_exact_sol'' then Sell
              else Unknown))"

text \<open>The balance change of one \<open>accountData\<close> entry, as the reducer computes it.\<close>

definition account_change :: "AccountData \<Rightarrow> jsnum" where
  "account_change acct =
     (let change = js_or (of_field (nativeBalanceChange acct)) (Finite 0);
          change = (if has_items (tokenBalanceChanges acct)
                    then js_add change
                           (foldl (\<lambda>tokenSum token.
                                     js_add tokenSum (js_abs (of_field (tbc_amount token))))
                              (Finite 0) (items (tokenBalanceChanges acct)))
                    else change)
      in js_abs change)"

definition calculateTradeValue :: "HeliusTransaction option \<Rightarrow> jsnum" where
  "calculateTradeValue txo =
     (case txo of
        None \<Rightarrow> Finite 0
      | Some tx \<Rightarrow>
          (let value = Finite 0;
               value = (if has_items (nativeTransfers tx)
                        then js_add value
                               (foldl (\<lambda>sum transfer.
                                         js_add sum (js_or (of_field (nt_amount transfer)) (Finite 0)))
                                  (Finite 0) (items (nativeTransfers tx)))
                        else value);
               value = (if has_items (tokenTransfers tx)
                        then js_add value
                               (foldl (\<lambda>sum transfer.
                                         js_add sum (js_or (of_field (tt_amount transfer)) (Finite 0)))
                                  (Finite 0) (items (tokenTransfers tx)))
                        else value)
           in if has_items (accountData tx)
              then (let balanceChanges =
                          foldl (\<lambda>sum acct. js_add sum (account_change acct)) (Finite 0)
                            (items (accountData tx))
                    in js_max value balanceChanges)
              else value))"

subsection \<open>The metrics of \<open>analyzeBatch\<close>\<close>

record Trade =
  t_type :: trade_type
  t_value :: jsnum
  t_timestamp :: real
  t_originalType :: string

record TradingMetrics =
  buyCount :: nat
  sellCount :: nat
  totalTrades :: nat
  averageTradeValue :: jsnum

definition to_trade :: "runtime \<Rightarrow> HeliusTransaction \<Rightarrow> Trade" where
  "to_trade rt tx =
     \<lparr>t_type = classifyTradeType rt (Some tx),
      t_value = calculateTradeValue (Some tx),
      t_timestamp = timestamp tx,
      t_originalType = type tx\<rparr>"

definition trades_of :: "runtime \<Rightarrow> HeliusTransaction option list \<Rightarrow> Trade list" where
  "trades_of rt transactions =
     [to_trade rt tx. Some tx \<leftarrow> transactions, isTradeTransaction rt (Some tx)]"

definition tradingMetrics :: "runtime \<Rightarrow> HeliusTransaction option list \<Rightarrow> TradingMetrics" where
  "tradingMetrics rt transactions =
     (let trades = trades_of rt transactions;
          totalTrades = length trades
      in \<lparr>buyCount = length (filter (\<lambda>t. t_type t = Buy) trades),
          sellCount = length (filter (\<lambda>t. t_type t = Sell) trades),
          totalTrades = totalTrades,
          averageTradeValue =
            js_or (js_divide (foldl (\<lambda>sum t. js_add sum (t_value t)) (Finite 0) trades)
                     (real totalTrades))
              (Finite 0)\<rparr>)"

section \<open>Portfolio value (\<open>getTokenAccounts\<close>, \<open>fetchWalletData\<close>)\<close>

record TokenAmount =
  uiAmount :: real
  ta_decimals :: real

record ParsedInfo =
  pi_mint :: string
  pi_owner :: string
  tokenAmount :: "TokenAmount option"

record TokenMetadata =
  m_mint :: string
  m_name :: string
  m_symbol :: string
  m_decimals :: real
  logoURI :: "string option"

text \<open>
  The objects returned by \<open>getTokenAccounts\<close>. \<open>fetchWalletData\<close> reads the property
  \<open>value\<close> of each of them, so the record has it; it is \<open>None\<close> where the object
  has no such property.
\<close>

record TokenAccountInfo =
  mint :: string
  owner :: string
  amount :: real
  decimals :: real
  symbol :: string
  name :: string
  logo :: "string option"
  "value" :: "real option"

text \<open>
  \<open>getTokenAccounts\<close>, first path, from the two responses on: \<open>accounts\<close> holds
  \<open>account.account.data.parsed?.info\<close> of each entry of the RPC response, \<open>metadata\<close>
  is what \<open>getTokenMetadata\<close> returned. A later entry of \<open>metadata\<close> replaces an
  earlier one with the same mint in the \<open>Map\<close>.
\<close>

definition getTokenAccounts ::
  "ParsedInfo option list \<Rightarrow> TokenMetadata list \<Rightarrow> TokenAccountInfo list" where
  "getTokenAccounts accounts metadata =
     (let tokenAccounts =
            [(pi_mint info, pi_owner info, uiAmount ta, ta_decimals ta).
               Some info \<leftarrow> accounts, Some ta \<leftarrow> [tokenAmount info], uiAmount ta > 0];
          metadataMap = map_of (rev (map (\<lambda>m. (m_mint m, m)) metadata))
      in map (\<lambda>(mint, owner, amount, decimals).
                (let meta = metadataMap mint
                 in \<lparr>mint = mint, owner = owner, amount = amount, decimals = decimals,
                     symbol = or_str (case meta of None \<Rightarrow> [] | Some m \<Rightarrow> m_symbol m) ''Unknown'',
                     name = or_str (case meta of None \<Rightarrow> [] | Some m \<Rightarrow> m_name m) ''Unknown Token'',
                     logo = (case meta of None \<Rightarrow> None | Some m \<Rightarrow> logoURI m),
                     value = None\<rparr>))
           tokenAccounts)"

text \<open>The portfolio value computed in \<open>fetchWalletData\<close>; \<open>token.value || 0\<close> per token.\<close>

definition totalValue :: "real \<Rightarrow> real \<Rightarrow> TokenAccountInfo list \<Rightarrow> real" where
  "totalValue balance currentSolPrice tokenAccounts =
     (let solValue = balance * currentSolPrice;
          tokenValue =
            foldl (\<lambda>acc token. acc + (case value token of None \<Rightarrow> 0 | Some v \<Rightarrow> or_num v 0)) 0
              tokenAccounts
      in solValue + tokenValue)"

section \<open>Price source (\<open>PriceManager\<close>)\<close>

record PriceData =
  price :: real
  change24h :: real

record CacheEntry =
  c_price :: real
  c_change24h :: real
  c_timestamp :: real

type_synonym cache = "string \<rightharpoonup> CacheEntry"

definition CACHE_DURATION :: real where
  "CACHE_DURATION = 3600000"

definition ENDPOINTS :: "string list" where
  "ENDPOINTS = [''CoinGecko'', ''Jupiter'', ''Binance'']"

text \<open>
  What a call of \<open>fetchEndpoint\<close> does: it throws, returns \<open>null\<close> or returns a
  parsed price. The outcomes and the two readings of \<open>Date.now()\<close> (at the cache
  check and when the result is stored) are the environment of one call.
\<close>

datatype fetch_outcome = Throws | ReturnsNull | Returns PriceData

record price_env =
  now_check :: real
  fetchEndpoint :: "string \<Rightarrow> fetch_outcome"
  now_store :: real

text \<open>The \<open>for\<close> loop over the endpoints: the first parsed price wins.\<close>

fun try_endpoints :: "(string \<Rightarrow> fetch_outcome) \<Rightarrow> string list \<Rightarrow> PriceData option" where
  "try_endpoints fetch [] = None"
| "try_endpoints fetch (endpoint # rest) =
     (case fetch endpoint of
        Returns result \<Rightarrow> Some result
      | ReturnsNull \<Rightarrow> try_endpoints fetch rest
      | Throws \<Rightarrow> try_endpoints fetch rest)"

definition price_of_entry :: "CacheEntry \<Rightarrow> PriceData" where
  "price_of_entry cached = \<lparr>price = c_price cached, change24h = c_change24h cached\<rparr>"

definition fetch_or_fallback :: "cache \<Rightarrow> price_env \<Rightarrow> PriceData \<times> cache" where
  "fetch_or_fallback cache env =
     (case try_endpoints (fetchEndpoint env) ENDPOINTS of
        Some result \<Rightarrow>
          (result,
           cache(''solana'' \<mapsto>
             \<lparr>c_price = price result, c_change24h = change24h result,
              c_timestamp = now_store env\<rparr>))
      | None \<Rightarrow>
          (case cache ''solana'' of
             Some cached \<Rightarrow> (price_of_entry cached, cache)
           | None \<Rightarrow> (\<lparr>price = 100, change24h = 0\<rparr>, cache)))"

text \<open>
  \<open>getSolanaPrice\<close>: the result and the cache after the call. No operation of the
  \<open>try\<close> block raises in this model (the loop catches what \<open>fetchEndpoint\<close> throws),
  so the outer \<open>catch\<close> clause, which also only reads the cache, is never entered.
\<close>

definition getSolanaPrice :: "cache \<Rightarrow> price_env \<Rightarrow> PriceData \<times> cache" where
  "getSolanaPrice cache env =
     (case cache ''solana'' of
        Some cached \<Rightarrow>
          if now_check env - c_timestamp cached < CACHE_DURATION
          then (price_of_entry cached, cache)
          else fetch_or_fallback cache env
      | None \<Rightarrow> fetch_or_fallback cache env)"






section \<open>What the specification says, where it is compared with the code\<close>

text \<open>
  The classification order as the specification words it: type-string hints first,
  then the native amount sent by the reported source account, then the token amount
  sent by it, then the instruction names in the serialized body.
\<close>

definition js_sum :: "jsnum list \<Rightarrow> jsnum" where
  "js_sum xs = foldr js_add xs (Finite 0)"

definition classify_spec :: "runtime \<Rightarrow> HeliusTransaction \<Rightarrow> trade_type" where
  "classify_spec rt tx =
     (let hint = toLowerCase (type tx);
          body = toLowerCase (JSON_stringify rt tx);
          nativeOut = js_sum (map (\<lambda>t. of_field (nt_amount t))
                        (filter (\<lambda>t. Some (nt_fromUserAccount t) = source tx)
                           (items (nativeTransfers tx))));
          tokenOut = js_sum (map (\<lambda>t. of_field (tt_amount t))
                       (filter (\<lambda>t. Some (tt_fromUserAccount t) = source tx)
                          (items (tokenTransfers tx))))
      in if str_includes hint ''buy'' \<or> str_includes hint ''swap_in'' then Buy
         else if str_includes hint ''sell'' \<or> str_includes hint ''swap_out'' then Sell
         else if js_less (Finite 0) nativeOut then Buy
         else if js_less (Finite 0) tokenOut then Sell
         else if str_includes body ''swap_exact_tokens_for_tokens''
                 \<or> str_includes body ''swap_exact_sol_for_tokens'' then Buy
         else if str_includes body ''swap_exact_tokens_for_sol''
                 \<or> str_includes body ''swap_tokens_for_exact_sol'' then Sell
         else Unknown)"

text \<open>
  The trade value as the specification words it: the larger of the sum of the absolute
  transfer amounts and the sum of the absolute native and token balance changes.
\<close>

definition magnitude :: "real option \<Rightarrow> real" where
  "magnitude v = (case v of None \<Rightarrow> 0 | Some x \<Rightarrow> \<bar>x\<bar>)"

definition estimateValue_spec :: "HeliusTransaction \<Rightarrow> real" where
  "estimateValue_spec tx =
     max (sum_list (map (\<lambda>t. magnitude (nt_amount t)) (items (nativeTransfers tx)))
          + sum_list (map (\<lambda>t. magnitude (tt_amount t)) (items (tokenTransfers tx))))
         (sum_list (map (\<lambda>a. magnitude (nativeBalanceChange a)
                              + sum_list (map (\<lambda>c. magnitude (tbc_amount c))
                                            (items (tokenBalanceChanges a))))
                      (items (accountData tx))))"

section \<open>Example inputs\<close>

definition rt0 :: runtime where
  "rt0 = \<lparr>fractionText = (\<lambda>x. ''0.5''), dateNow = 1700000000000\<rparr>"

definition example_tx :: HeliusTransaction where
  "example_tx =
     \<lparr>signature = ''sig1'', type = ''TRANSFER'', timestamp = 1700000000, slot = 1,
      fee = 5000, nativeTransfers = Some [], tokenTransfers = Some [],
      accountData = Some [], source = None\<rparr>"

definition native :: "string \<Rightarrow> string \<Rightarrow> real \<Rightarrow> NativeTransfer" where
  "native a b x = \<lparr>nt_fromUserAccount = a, nt_toUserAccount = b, nt_amount = Some x\<rparr>"

definition token :: "string \<Rightarrow> string \<Rightarrow> real \<Rightarrow> TokenTransfer" where
  "token a b x =
     \<lparr>tt_fromUserAccount = a, tt_toUserAccount = b, tt_mint = ''Mint1'',
      tt_amount = Some x\<rparr>"

text \<open>Scenario A: the wallet \<open>W\<close> sends 2 SOL.\<close>

definition tx_send :: HeliusTransaction where
  "tx_send = example_tx\<lparr>nativeTransfers := Some [native ''W'' ''X'' 2000000000]\<rparr>"

text \<open>Scenario B: a native transfer of 500000 lamports.\<close>

definition tx_dust :: HeliusTransaction where
  "tx_dust = example_tx\<lparr>nativeTransfers := Some [native ''W'' ''X'' 500000]\<rparr>"

text \<open>A native transfer between two other accounts.\<close>

definition tx_third :: HeliusTransaction where
  "tx_third = example_tx\<lparr>nativeTransfers := Some [native ''A'' ''B'' 2000000000]\<rparr>"

definition tx_third_swap :: HeliusTransaction where
  "tx_third_swap = tx_third\<lparr>type := ''SWAP''\<rparr>"

definition tx_third_untyped :: HeliusTransaction where
  "tx_third_untyped = tx_third\<lparr>type := []\<rparr>"

definition tx_third_token :: HeliusTransaction where
  "tx_third_token = tx_third\<lparr>tokenTransfers := Some [token ''W'' ''C'' 7]\<rparr>"

text \<open>The wallet sends 2 SOL and two other accounts exchange 7 tokens.\<close>

definition tx_both :: HeliusTransaction where
  "tx_both = tx_send\<lparr>tokenTransfers := Some [token ''A'' ''B'' 7]\<rparr>"

text \<open>A token transfer with a negative amount.\<close>

definition tx_negative_token :: HeliusTransaction where
  "tx_negative_token = example_tx\<lparr>tokenTransfers := Some [token ''W'' ''C'' (- 1)]\<rparr>"

text \<open>A purchase: the payer's account loses 5 native units and gains 3 tokens.\<close>

definition tx_purchase :: HeliusTransaction where
  "tx_purchase = example_tx
     \<lparr>accountData := Some
        [\<lparr>account = ''W'', nativeBalanceChange = Some (- 5),
          tokenBalanceChanges = Some [\<lparr>tbc_mint = ''Mint1'', tbc_amount = Some 3\<rparr>]\<rparr>]\<rparr>"

text \<open>A native transfer whose object has no amount.\<close>

definition tx_no_amount :: HeliusTransaction where
  "tx_no_amount = example_tx
     \<lparr>nativeTransfers := Some
        [\<lparr>nt_fromUserAccount = ''W'', nt_toUserAccount = ''X'', nt_amount = None\<rparr>]\<rparr>"

text \<open>The reported source account \<open>W\<close> sends native currency.\<close>

definition tx_buy :: HeliusTransaction where
  "tx_buy = tx_send\<lparr>source := Some ''W''\<rparr>"

text \<open>Scenario D: one token account holding 5 tokens.\<close>

definition wallet_accounts :: "ParsedInfo option list" where
  "wallet_accounts =
     [Some \<lparr>pi_mint = ''Mint1'', pi_owner = ''W'',
            tokenAmount = Some \<lparr>uiAmount = 5, ta_decimals = 6\<rparr>\<rparr>]"

definition wallet_metadata :: "TokenMetadata list" where
  "wallet_metadata =
     [\<lparr>m_mint = ''Mint1'', m_name = ''Token One'', m_symbol = ''ONE'', m_decimals = 6,
       logoURI = None\<rparr>]"

text \<open>Scenario E: every provider fails; and a call in which the second provider answers.\<close>

definition env_fail :: price_env where
  "env_fail =
     \<lparr>now_check = 10000000,
      fetchEndpoint = (\<lambda>e. if e = ''Jupiter'' then Throws else ReturnsNull),
      now_store = 10000500\<rparr>"


definition expired_cache :: cache where
  "expired_cache = [''solana'' \<mapsto> \<lparr>c_price = 95, c_change24h = 2, c_timestamp = 1000\<rparr>]"

section \<open>Auxiliary facts\<close>

lemma foldl_plus_sum_list:
  "foldl (\<lambda>acc x. acc + g x) a xs = a + sum_list (map g xs)" for a :: real
  by (induction xs arbitrary: a) auto

subsection \<open>Sums of values that may be missing\<close>

lemma js_add_assoc: "js_add (js_add a b) c = js_add a (js_add b c)"
  by (cases a; cases b; cases c) simp_all

lemma js_add_defined [simp]: "js_add a b \<noteq> Undefined"
  by (cases a; cases b) simp_all

lemma js_add_zero_right: "a \<noteq> Undefined \<Longrightarrow> js_add a (Finite 0) = a"
  by (cases a) simp_all

lemma js_add_zero_left: "a \<noteq> Undefined \<Longrightarrow> js_add (Finite 0) a = a"
  by (cases a) simp_all

lemma js_sum_defined [simp]: "js_sum xs \<noteq> Undefined"
  by (cases xs) (simp_all add: js_sum_def)

lemma js_sum_Cons: "js_sum (x # xs) = js_add x (js_sum xs)"
  by (simp add: js_sum_def)

lemma foldl_cond_js_sum:
  "a \<noteq> Undefined \<Longrightarrow>
   foldl (\<lambda>acc x. if P x then js_add acc (g x) else acc) a xs
     = js_add a (js_sum (map g (filter P xs)))"
proof (induction xs arbitrary: a)
  case Nil
  then show ?case by (simp add: js_sum_def js_add_zero_right)
next
  case (Cons x xs)
  show ?case
  proof (cases "P x")
    case True
    have "foldl (\<lambda>acc x. if P x then js_add acc (g x) else acc) (js_add a (g x)) xs
        = js_add (js_add a (g x)) (js_sum (map g (filter P xs)))"
      by (rule Cons.IH) simp
    with True show ?thesis by (simp add: js_sum_Cons js_add_assoc)
  next
    case False
    with Cons show ?thesis by simp
  qed
qed

lemma sum_list_all_zero:
  "(\<And>x. x \<in> set xs \<Longrightarrow> f x = 0) \<Longrightarrow> sum_list (map f xs) = (0::real)"
  by (induction xs) auto

lemma items_empty_iff: "\<not> has_items xs \<Longrightarrow> items xs = []"
  by (cases xs) (auto simp: has_items_def items_def)

subsection \<open>Price source\<close>

lemma try_endpoints_all_fail:
  "\<forall>e\<in>set es. \<forall>r. fetch e \<noteq> Returns r \<Longrightarrow> try_endpoints fetch es = None"
  by (induction es) (auto split: fetch_outcome.splits)


lemma price_of_stored [simp]:
  "price_of_entry \<lparr>c_price = price r, c_change24h = change24h r, c_timestamp = t\<rparr> = r"
  by (cases r) (simp add: price_of_entry_def)




subsection \<open>Normalizer\<close>

lemma map_throwing_total:
  "(\<And>x. \<exists>y. f x = Inr y) \<Longrightarrow> map_throwing f xs = Inr (map (\<lambda>x. projr (f x)) xs)"
proof (induction xs)
  case Nil
  then show ?case by simp
next
  case (Cons x xs)
  from Cons.prems obtain y where "f x = Inr y" by blast
  with Cons show ?case by auto
qed

lemma processTransaction_total: "\<exists>r. processTransaction rt txo w = Inr r"
  by (simp add: processTransaction_def split: sum.splits)

lemma processTransaction_null: "processTransaction rt None w = Inr None"
  by (simp add: processTransaction_def processTransaction_try_def)

lemma getTransactions_eq:
  "getTransactions rt txs w =
     Inr (sort_key (\<lambda>p. - p_timestamp p)
            (List.map_filter (\<lambda>r. r) (map (\<lambda>tx. projr (processTransaction rt tx w)) txs)))"
  by (simp add: getTransactions_def
      map_throwing_total[of "\<lambda>tx. processTransaction rt tx w", OF processTransaction_total])

lemma value_getTokenAccounts:
  "t \<in> set (getTokenAccounts accounts metadata) \<Longrightarrow> value t = None"
  by (auto simp: getTokenAccounts_def Let_def)

section \<open>Portfolio value\<close>

text \<open>
  C1 (as amended). The portfolio total is the native balance times the native price plus,
  for each token account, its \<open>value\<close> property, or 0 when it has none. The token
  accounts built by \<open>getTokenAccounts\<close> have no \<open>value\<close> (no token price is resolved
  anywhere), so each of them contributes 0 and the total is the native value alone.
\<close>

theorem totalValue_is_native_value:
  "totalValue balance currentSolPrice tokenAccounts =
     balance * currentSolPrice
     + sum_list (map (\<lambda>t. case value t of None \<Rightarrow> 0 | Some v \<Rightarrow> v) tokenAccounts)
   \<and> totalValue balance currentSolPrice (getTokenAccounts accounts metadata) =
       balance * currentSolPrice"
proof -
  have general: "totalValue balance currentSolPrice toks =
      balance * currentSolPrice
      + sum_list (map (\<lambda>t. case value t of None \<Rightarrow> 0 | Some v \<Rightarrow> v) toks)" for toks
    unfolding totalValue_def Let_def foldl_plus_sum_list
    by (auto simp: or_num_def intro!: arg_cong[where f = sum_list] split: option.splits)
  have "sum_list (map (\<lambda>t. case value t of None \<Rightarrow> 0 | Some v \<Rightarrow> v)
          (getTokenAccounts accounts metadata)) = (0::real)"
    by (rule sum_list_all_zero) (simp add: value_getTokenAccounts)
  with general show ?thesis by simp
qed

text \<open>Scenario D in the code: 10 native units at 150 and 5 tokens are worth 1500.\<close>

theorem totalValue_is_native_value_witness:
  "totalValue 10 150 (getTokenAccounts wallet_accounts wallet_metadata) = 1500"
  using totalValue_is_native_value[of 10 150 "[]" wallet_accounts wallet_metadata]
  by simp

text \<open>C1 as stated fails: the total of Scenario D is not 1510.\<close>

theorem totalValue_scenario_D_counterexample:
  "totalValue 10 150 (getTokenAccounts wallet_accounts wallet_metadata) \<noteq> 1510"
  by (simp add: totalValue_def getTokenAccounts_def wallet_accounts_def wallet_metadata_def)

section \<open>Normalizer: errors\<close>

text \<open>
  C6. \<open>processTransaction\<close> never raises: it always returns a value, and when the body
  of its \<open>try\<close> block raises, as it does for a \<open>null\<close> transaction, that value is
  \<open>null\<close>. So \<open>getTransactions\<close> never fails on the fetched list, and a bad transaction
  in it is dropped without changing the rest of the result.
\<close>

theorem processTransaction_never_raises:
  "(\<exists>r. processTransaction rt txo w = Inr r)
   \<and> (\<forall>e. processTransaction_try rt txo w = Inl e \<longrightarrow> processTransaction rt txo w = Inr None)
   \<and> processTransaction_try rt None w = Inl TypeError
   \<and> (\<exists>ps. getTransactions rt txs w = Inr ps)
   \<and> getTransactions rt (xs @ None # ys) w = getTransactions rt (xs @ ys) w"
proof -
  have "getTransactions rt (xs @ None # ys) w = getTransactions rt (xs @ ys) w"
    by (simp add: getTransactions_eq List.map_filter_def processTransaction_null)
  then show ?thesis
    using processTransaction_total[of rt txo w]
    by (auto simp: getTransactions_eq processTransaction_def processTransaction_try_def)
qed

theorem processTransaction_never_raises_witness:
  "processTransaction_try rt0 None ''W'' = Inl TypeError
   \<and> processTransaction rt0 None ''W'' = Inr None
   \<and> getTransactions rt0 [None, Some tx_dust, None] ''W'' = getTransactions rt0 [Some tx_dust] ''W''"
  using processTransaction_never_raises[of rt0 None "''W''" "[]" "[]" "[Some tx_dust, None]"]
    processTransaction_never_raises[of rt0 None "''W''" "[]" "[Some tx_dust]" "[]"]
  by simp

section \<open>Trade classifier: the average\<close>

text \<open>
  C7. When no transaction of the batch is a trade (\<open>totalTrades = 0\<close>), the
  \<open>averageTradeValue\<close> is exactly 0: the quotient \<open>0 / 0\<close> is \<open>NaN\<close>, which
  \<open>|| 0\<close> replaces by 0.
\<close>

theorem averageTradeValue_without_trades:
  "totalTrades (tradingMetrics rt transactions) = 0 \<Longrightarrow>
   averageTradeValue (tradingMetrics rt transactions) = Finite 0"
  by (simp add: tradingMetrics_def Let_def js_divide_def js_or_def)

lemma example_tx_not_trade: "isTradeTransaction rt0 (Some example_tx) = False"
  by code_simp

theorem averageTradeValue_without_trades_witness:
  "totalTrades (tradingMetrics rt0 [Some example_tx, None]) = 0
   \<and> averageTradeValue (tradingMetrics rt0 [Some example_tx, None]) = Finite 0"
proof -
  have none: "totalTrades (tradingMetrics rt0 [Some example_tx, None]) = 0"
    by (simp add: tradingMetrics_def trades_of_def example_tx_not_trade Let_def)
  from averageTradeValue_without_trades[OF none] none show ?thesis by simp
qed

section \<open>Price source\<close>

text \<open>
  C8. When every provider of \<open>ENDPOINTS\<close> fails (throws or returns \<open>null\<close>),
  \<open>getSolanaPrice\<close> returns the fixed fallback price 100 with change 0 if the cache has
  no entry, and the cached price if the cache has an expired entry.
\<close>

theorem getSolanaPrice_all_providers_fail:
  assumes "\<forall>e\<in>set ENDPOINTS. \<forall>r. fetchEndpoint env e \<noteq> Returns r"
  shows "(cache ''solana'' = None \<longrightarrow>
            fst (getSolanaPrice cache env) = \<lparr>price = 100, change24h = 0\<rparr>)
       \<and> (\<forall>cached. cache ''solana'' = Some cached
              \<and> now_check env - c_timestamp cached \<ge> CACHE_DURATION \<longrightarrow>
            fst (getSolanaPrice cache env) =
              \<lparr>price = c_price cached, change24h = c_change24h cached\<rparr>)"
  using try_endpoints_all_fail[OF assms]
  by (auto simp: getSolanaPrice_def fetch_or_fallback_def price_of_entry_def)

theorem getSolanaPrice_all_providers_fail_witness:
  "fst (getSolanaPrice Map.empty env_fail) = \<lparr>price = 100, change24h = 0\<rparr>
   \<and> fst (getSolanaPrice expired_cache env_fail) = \<lparr>price = 95, change24h = 2\<rparr>"
proof -
  have fail: "\<forall>e\<in>set ENDPOINTS. \<forall>r. fetchEndpoint env_fail e \<noteq> Returns r"
    by (simp add: env_fail_def ENDPOINTS_def)
  have old: "expired_cache ''solana'' = Some \<lparr>c_price = 95, c_change24h = 2, c_timestamp = 1000\<rparr>
      \<and> now_check env_fail - 1000 \<ge> CACHE_DURATION"
    by (simp add: expired_cache_def env_fail_def CACHE_DURATION_def)
  from getSolanaPrice_all_providers_fail[OF fail, of Map.empty]
    getSolanaPrice_all_providers_fail[OF fail, of expired_cache] old
  show ?thesis by auto
qed



section \<open>Trade classifier: classification and value\<close>

lemma totalNativeOut_sum:
  "totalNativeOut tx =
     js_sum (map (\<lambda>t. of_field (nt_amount t))
       (filter (\<lambda>t. Some (nt_fromUserAccount t) = source tx) (items (nativeTransfers tx))))"
  by (simp add: totalNativeOut_def foldl_cond_js_sum js_add_zero_left)

lemma totalTokensOut_sum:
  "totalTokensOut tx =
     js_sum (map (\<lambda>t. of_field (tt_amount t))
       (filter (\<lambda>t. Some (tt_fromUserAccount t) = source tx) (items (tokenTransfers tx))))"
  by (simp add: totalTokensOut_def foldl_cond_js_sum js_add_zero_left)

lemma no_items_no_native_out:
  "\<not> has_items (nativeTransfers tx) \<Longrightarrow> totalNativeOut tx = Finite 0"
  by (simp add: totalNativeOut_def items_empty_iff)

lemma no_items_no_tokens_out:
  "\<not> has_items (tokenTransfers tx) \<Longrightarrow> totalTokensOut tx = Finite 0"
  by (simp add: totalTokensOut_def items_empty_iff)

text \<open>
  C4. \<open>classifyTradeType\<close> applies the rules in the order of the specification: a
  (lower-cased) type string with \<open>buy\<close> or \<open>swap_in\<close> gives Buy, one with \<open>sell\<close> or
  \<open>swap_out\<close> gives Sell; otherwise a positive total of the native transfers sent by
  the reported source account gives Buy; otherwise a positive total of the token
  transfers sent by it gives Sell; otherwise the instruction names in the serialized
  body decide; otherwise the result is Unknown.
\<close>

theorem classifyTradeType_follows_precedence:
  "classifyTradeType rt (Some tx) = classify_spec rt tx
   \<and> classifyTradeType rt None = Unknown"
proof -
  have native: "has_items (nativeTransfers tx) \<or> \<not> js_less (Finite 0) (totalNativeOut tx)"
    by (cases "has_items (nativeTransfers tx)") (simp_all add: no_items_no_native_out)
  have tokens: "has_items (tokenTransfers tx) \<or> \<not> js_less (Finite 0) (totalTokensOut tx)"
    by (cases "has_items (tokenTransfers tx)") (simp_all add: no_items_no_tokens_out)
  have lower: "or_str (toLowerCase (type tx)) [] = toLowerCase (type tx)"
    by (simp add: or_str_def)
  have "classifyTradeType rt (Some tx) = classify_spec rt tx"
    unfolding classifyTradeType_def classify_spec_def option.case Let_def lower
      totalNativeOut_sum[symmetric] totalTokensOut_sum[symmetric]
    using native tokens by auto
  then show ?thesis
    by (simp add: classifyTradeType_def)
qed

lemma classify_spec_tx_buy: "classify_spec rt0 tx_buy = Buy"
  by code_simp

theorem classifyTradeType_follows_precedence_witness:
  "classifyTradeType rt0 (Some tx_buy) = Buy \<and> classifyTradeType rt0 None = Unknown"
  using classifyTradeType_follows_precedence[of rt0 tx_buy] classify_spec_tx_buy
  by simp

text \<open>
  C2. The specification takes the larger of the sum of the absolute transfer amounts and
  the sum of the absolute balance changes. The code does not meet this: for the
  purchase, whose payer loses 5 native units and gains 3 tokens, the reducer adds the
  signed native change to the absolute token change before taking the absolute value,
  and returns \<open>|-5 + 3| = 2\<close> where the specification gives \<open>5 + 3 = 8\<close>.
\<close>

theorem calculateTradeValue_purchase:
  "calculateTradeValue (Some tx_purchase) = Finite 2 \<and> estimateValue_spec tx_purchase = 8"
  by (simp add: calculateTradeValue_def estimateValue_spec_def account_change_def
      tx_purchase_def example_tx_def has_items_def items_def js_or_def js_max_def
      of_field_def magnitude_def)

section \<open>Normalizer: what the result is derived from\<close>

lemma processTransaction_Some:
  "processTransaction rt (Some tx) w =
     (if l_tokenSymbol (resolved_locals rt tx w) = ''SOL''
         \<and> js_less (l_amount (resolved_locals rt tx w)) (Finite MIN_SOL_AMOUNT) then Inr None
      else if l_amount (resolved_locals rt tx w) = Finite 0 then Inr None
      else Inr (Some
        \<lparr>p_signature = or_str (signature tx) [],
         p_type = l_type (resolved_locals rt tx w),
         p_amount = l_amount (resolved_locals rt tx w),
         p_timestamp = or_num (timestamp tx) (dateNow rt),
         p_status = ''success'',
         p_tokenSymbol = l_tokenSymbol (resolved_locals rt tx w),
         p_fee = or_num (fee tx) 0,
         p_description = l_description (resolved_locals rt tx w)\<rparr>))"
  by (simp add: processTransaction_def processTransaction_try_def Let_def)

lemma resolved_tokenSymbol:
  "l_tokenSymbol (resolved_locals rt tx w) =
     (case tokenTransfers tx of Some (t # ts) \<Rightarrow> ''Token'' | _ \<Rightarrow> ''SOL'')"
  by (simp add: resolved_locals_def swap_step_def token_step_def native_step_def
      init_locals_def Let_def split: option.splits list.splits)

lemma resolved_amount:
  "l_amount (resolved_locals rt tx w) =
     (case tokenTransfers tx of
        Some (t # ts) \<Rightarrow> of_field (tt_amount t)
      | _ \<Rightarrow> (case nativeTransfers tx of
                Some (n # ns) \<Rightarrow> js_divide (of_field (nt_amount n)) LAMPORTS_PER_SOL
              | _ \<Rightarrow> Finite 0))"
  by (simp add: resolved_locals_def swap_step_def token_step_def native_step_def
      init_locals_def Let_def split: option.splits list.splits)

lemma resolved_type_both:
  assumes "nativeTransfers tx = Some (n # ns)" and "tokenTransfers tx = Some (t # ts)"
  shows "l_type (resolved_locals rt tx w) =
     (if is_swap_text rt tx then ''Swap''
      else if tt_fromUserAccount t = w then ''Send Token''
      else if tt_toUserAccount t = w then ''Receive Token''
      else if nt_fromUserAccount n = w then ''Send SOL''
      else if nt_toUserAccount n = w then ''Receive SOL''
      else or_str (type tx) ''Unknown'')"
  using assms
  by (simp add: resolved_locals_def swap_step_def token_step_def native_step_def
      init_locals_def Let_def)

lemma MIN_SOL_AMOUNT_pos: "0 < MIN_SOL_AMOUNT"
  by (simp add: MIN_SOL_AMOUNT_def)

lemma of_field_zero: "of_field v = Finite 0 \<longleftrightarrow> v = Some 0"
  by (cases v) (simp_all add: of_field_def)

lemma native_amount_cases:
  "js_divide (of_field v) LAMPORTS_PER_SOL =
     (case v of None \<Rightarrow> NaN | Some a \<Rightarrow> Finite (a / LAMPORTS_PER_SOL))"
  by (cases v) (simp_all add: js_divide_def of_field_def LAMPORTS_PER_SOL_def)

text \<open>
  C3 (as amended). For a raw transaction with at least one native and at least one token
  transfer the token branch runs after the native branch: the amount is that of the
  first token transfer and the token symbol is \<open>Token\<close>; the type is \<open>Swap\<close> when
  the swap keywords match, else \<open>Send Token\<close> or \<open>Receive Token\<close> when the wallet is
  the sender or the recipient of the first token transfer, else what the native branch
  left (\<open>Send SOL\<close>, \<open>Receive SOL\<close>, or the raw type). The result is \<open>null\<close> exactly
  when that token amount is 0.
\<close>

theorem both_transfers_token_overrides_native:
  assumes "nativeTransfers tx = Some (n # ns)" and "tokenTransfers tx = Some (t # ts)"
  shows "processTransaction rt (Some tx) w =
     (if tt_amount t = Some 0 then Inr None
      else Inr (Some
        \<lparr>p_signature = or_str (signature tx) [],
         p_type =
           (if is_swap_text rt tx then ''Swap''
            else if tt_fromUserAccount t = w then ''Send Token''
            else if tt_toUserAccount t = w then ''Receive Token''
            else if nt_fromUserAccount n = w then ''Send SOL''
            else if nt_toUserAccount n = w then ''Receive SOL''
            else or_str (type tx) ''Unknown''),
         p_amount = of_field (tt_amount t),
         p_timestamp = or_num (timestamp tx) (dateNow rt),
         p_status = ''success'',
         p_tokenSymbol = ''Token'',
         p_fee = or_num (fee tx) 0,
         p_description = l_description (resolved_locals rt tx w)\<rparr>))"
  unfolding processTransaction_Some resolved_tokenSymbol resolved_amount
    resolved_type_both[OF assms]
  using assms by (simp add: of_field_zero)

lemma tx_both_not_swap: "is_swap_text rt0 tx_both = False"
  by code_simp

lemma tx_both_description:
  "l_description (resolved_locals rt0 tx_both ''W'') = ''Sent 2.000 SOL''"
  by code_simp

theorem both_transfers_token_overrides_native_witness:
  "processTransaction rt0 (Some tx_both) ''W'' =
     Inr (Some
       \<lparr>p_signature = ''sig1'', p_type = ''Send SOL'', p_amount = Finite 7,
        p_timestamp = 1700000000, p_status = ''success'', p_tokenSymbol = ''Token'',
        p_fee = 5000, p_description = ''Sent 2.000 SOL''\<rparr>)"
proof -
  have n: "nativeTransfers tx_both = Some (native ''W'' ''X'' 2000000000 # [])"
    and t: "tokenTransfers tx_both = Some (token ''A'' ''B'' 7 # [])"
    by (simp_all add: tx_both_def tx_send_def example_tx_def)
  have fields: "signature tx_both = ''sig1''" "type tx_both = ''TRANSFER''"
    "timestamp tx_both = 1700000000" "fee tx_both = 5000"
    by (simp_all add: tx_both_def tx_send_def example_tx_def)
  from both_transfers_token_overrides_native[OF n t, of rt0 "''W''"]
  show ?thesis
    by (simp add: tx_both_not_swap tx_both_description token_def native_def or_str_def
        or_num_def of_field_def fields)
qed

text \<open>
  C3 as stated fails: with the wallet's native transfer of 2 SOL and a token transfer of
  7 between two other accounts, the amount and the symbol are those of the token
  transfer, not of the native one.
\<close>

theorem both_transfers_counterexample:
  "processTransaction rt0 (Some tx_both) ''W'' =
     Inr (Some
       \<lparr>p_signature = ''sig1'', p_type = ''Send SOL'', p_amount = Finite 7,
        p_timestamp = 1700000000, p_status = ''success'', p_tokenSymbol = ''Token'',
        p_fee = 5000, p_description = ''Sent 2.000 SOL''\<rparr>)
   \<and> (7::real) \<noteq> 2000000000 / LAMPORTS_PER_SOL
   \<and> ''Token'' \<noteq> ''SOL''"
proof -
  have "processTransaction rt0 (Some tx_both) ''W'' =
     Inr (Some
       \<lparr>p_signature = ''sig1'', p_type = ''Send SOL'', p_amount = Finite 7,
        p_timestamp = 1700000000, p_status = ''success'', p_tokenSymbol = ''Token'',
        p_fee = 5000, p_description = ''Sent 2.000 SOL''\<rparr>)"
    by code_simp
  then show ?thesis by (simp add: LAMPORTS_PER_SOL_def)
qed

text \<open>
  C5 (as amended). Whenever \<open>processTransaction\<close> returns a record, its amount is never
  exactly 0. When the token symbol is the native one, the amount is at or above the
  threshold 0.001, hence positive, or it is \<open>NaN\<close>, which happens exactly when the
  first native transfer has no amount. The amount is a positive number whenever the
  first native transfer, if there is one, has an amount and the first token transfer, if
  there is one, has a non-negative amount. A transaction whose resolved amount is 0, or
  whose resolved symbol is the native one with an amount below the threshold, gives
  \<open>null\<close>.
\<close>

theorem processed_amount_bounds:
  "(processTransaction rt (Some tx) w = Inr (Some r) \<longrightarrow>
      p_amount r \<noteq> Finite 0
      \<and> (p_tokenSymbol r = ''SOL'' \<longrightarrow>
            (\<exists>n ns. nativeTransfers tx = Some (n # ns)
               \<and> (nt_amount n = None \<and> p_amount r = NaN
                   \<or> (\<exists>a. nt_amount n = Some a \<and> p_amount r = Finite (a / LAMPORTS_PER_SOL)
                          \<and> MIN_SOL_AMOUNT \<le> a / LAMPORTS_PER_SOL
                          \<and> 0 < a / LAMPORTS_PER_SOL))))
      \<and> ((\<forall>n ns. nativeTransfers tx = Some (n # ns) \<longrightarrow> nt_amount n \<noteq> None)
          \<and> (\<forall>t ts. tokenTransfers tx = Some (t # ts) \<longrightarrow> (\<exists>x. tt_amount t = Some x \<and> 0 \<le> x))
          \<longrightarrow> (\<exists>a. p_amount r = Finite a \<and> 0 < a)))
   \<and> (l_amount (resolved_locals rt tx w) = Finite 0
        \<or> (l_tokenSymbol (resolved_locals rt tx w) = ''SOL''
            \<and> js_less (l_amount (resolved_locals rt tx w)) (Finite MIN_SOL_AMOUNT))
       \<longrightarrow> processTransaction rt (Some tx) w = Inr None)"
proof -
  let ?L = "resolved_locals rt tx w"
  have kept: "p_amount r \<noteq> Finite 0
      \<and> (p_tokenSymbol r = ''SOL'' \<longrightarrow>
            (\<exists>n ns. nativeTransfers tx = Some (n # ns)
               \<and> (nt_amount n = None \<and> p_amount r = NaN
                   \<or> (\<exists>a. nt_amount n = Some a \<and> p_amount r = Finite (a / LAMPORTS_PER_SOL)
                          \<and> MIN_SOL_AMOUNT \<le> a / LAMPORTS_PER_SOL
                          \<and> 0 < a / LAMPORTS_PER_SOL))))
      \<and> ((\<forall>n ns. nativeTransfers tx = Some (n # ns) \<longrightarrow> nt_amount n \<noteq> None)
          \<and> (\<forall>t ts. tokenTransfers tx = Some (t # ts) \<longrightarrow> (\<exists>x. tt_amount t = Some x \<and> 0 \<le> x))
          \<longrightarrow> (\<exists>a. p_amount r = Finite a \<and> 0 < a))"
    if some: "processTransaction rt (Some tx) w = Inr (Some r)"
  proof -
    from some have keep:
        "\<not> (l_tokenSymbol ?L = ''SOL'' \<and> js_less (l_amount ?L) (Finite MIN_SOL_AMOUNT))"
      and nonzero: "l_amount ?L \<noteq> Finite 0"
      and amount: "p_amount r = l_amount ?L"
      and symbol: "p_tokenSymbol r = l_tokenSymbol ?L"
      by (auto simp: processTransaction_Some split: if_splits)
    have native: "\<exists>n ns. nativeTransfers tx = Some (n # ns)
               \<and> (nt_amount n = None \<and> p_amount r = NaN
                   \<or> (\<exists>a. nt_amount n = Some a \<and> p_amount r = Finite (a / LAMPORTS_PER_SOL)
                          \<and> MIN_SOL_AMOUNT \<le> a / LAMPORTS_PER_SOL
                          \<and> 0 < a / LAMPORTS_PER_SOL))"
      if sol: "p_tokenSymbol r = ''SOL''"
    proof -
      from sol symbol have s: "l_tokenSymbol ?L = ''SOL''" by simp
      then have no_token: "\<not> (\<exists>t ts. tokenTransfers tx = Some (t # ts))"
        by (auto simp: resolved_tokenSymbol)
      then have amt: "l_amount ?L =
          (case nativeTransfers tx of
             Some (n # ns) \<Rightarrow> js_divide (of_field (nt_amount n)) LAMPORTS_PER_SOL
           | _ \<Rightarrow> Finite 0)"
        by (auto simp: resolved_amount split: option.splits list.splits)
      with nonzero obtain n ns where n: "nativeTransfers tx = Some (n # ns)"
        by (auto split: option.splits list.splits)
      with amt have a: "l_amount ?L =
          (case nt_amount n of None \<Rightarrow> NaN | Some a \<Rightarrow> Finite (a / LAMPORTS_PER_SOL))"
        by (simp add: native_amount_cases)
      show ?thesis
      proof (cases "nt_amount n")
        case None
        with a n amount show ?thesis by auto
      next
        case (Some x)
        with a have f: "l_amount ?L = Finite (x / LAMPORTS_PER_SOL)" by simp
        with keep s have "MIN_SOL_AMOUNT \<le> x / LAMPORTS_PER_SOL" by simp
        with MIN_SOL_AMOUNT_pos have "MIN_SOL_AMOUNT \<le> x / LAMPORTS_PER_SOL
            \<and> 0 < x / LAMPORTS_PER_SOL"
          by linarith
        with Some f n amount show ?thesis by auto
      qed
    qed
    have positive: "\<exists>a. p_amount r = Finite a \<and> 0 < a"
      if present: "\<forall>n ns. nativeTransfers tx = Some (n # ns) \<longrightarrow> nt_amount n \<noteq> None"
        and ok: "\<forall>t ts. tokenTransfers tx = Some (t # ts) \<longrightarrow> (\<exists>x. tt_amount t = Some x \<and> 0 \<le> x)"
    proof (cases "\<exists>t ts. tokenTransfers tx = Some (t # ts)")
      case True
      then obtain t ts where t: "tokenTransfers tx = Some (t # ts)" by blast
      with ok obtain x where x: "tt_amount t = Some x" "0 \<le> x" by blast
      from t x have "l_amount ?L = Finite x"
        by (simp add: resolved_amount of_field_def)
      with nonzero amount x show ?thesis by auto
    next
      case False
      then have "l_tokenSymbol ?L = ''SOL''"
        by (auto simp: resolved_tokenSymbol split: option.splits list.splits)
      with symbol have "p_tokenSymbol r = ''SOL''" by simp
      from native[OF this] present show ?thesis by auto
    qed
    from nonzero amount native positive show ?thesis by simp
  qed
  have dropped: "processTransaction rt (Some tx) w = Inr None"
    if "l_amount ?L = Finite 0
        \<or> (l_tokenSymbol ?L = ''SOL'' \<and> js_less (l_amount ?L) (Finite MIN_SOL_AMOUNT))"
    using that by (auto simp: processTransaction_Some)
  from kept dropped show ?thesis by blast
qed

lemma tx_send_result:
  "processTransaction rt0 (Some tx_send) ''W'' =
     Inr (Some
       \<lparr>p_signature = ''sig1'', p_type = ''Send SOL'', p_amount = Finite 2,
        p_timestamp = 1700000000, p_status = ''success'', p_tokenSymbol = ''SOL'',
        p_fee = 5000, p_description = ''Sent 2.000 SOL''\<rparr>)"
  by code_simp

lemma tx_dust_resolved:
  "l_tokenSymbol (resolved_locals rt0 tx_dust ''W'') = ''SOL''
   \<and> js_less (l_amount (resolved_locals rt0 tx_dust ''W'')) (Finite MIN_SOL_AMOUNT)"
  by code_simp

theorem processed_amount_bounds_witness:
  "processTransaction rt0 (Some tx_send) ''W'' =
     Inr (Some
       \<lparr>p_signature = ''sig1'', p_type = ''Send SOL'', p_amount = Finite 2,
        p_timestamp = 1700000000, p_status = ''success'', p_tokenSymbol = ''SOL'',
        p_fee = 5000, p_description = ''Sent 2.000 SOL''\<rparr>)
   \<and> MIN_SOL_AMOUNT \<le> 2
   \<and> processTransaction rt0 (Some tx_dust) ''W'' = Inr None"
proof -
  have send: "nativeTransfers tx_send = Some [native ''W'' ''X'' 2000000000]"
    by (simp add: tx_send_def example_tx_def)
  from processed_amount_bounds[of rt0 tx_send "''W''"
      "\<lparr>p_signature = ''sig1'', p_type = ''Send SOL'', p_amount = Finite 2,
        p_timestamp = 1700000000, p_status = ''success'', p_tokenSymbol = ''SOL'',
        p_fee = 5000, p_description = ''Sent 2.000 SOL''\<rparr>"]
    tx_send_result send
  have "MIN_SOL_AMOUNT \<le> 2"
    by (auto simp: native_def LAMPORTS_PER_SOL_def)
  with processed_amount_bounds[of rt0 tx_dust "''W''"] tx_send_result tx_dust_resolved
  show ?thesis by simp
qed

text \<open>
  C5 as stated fails: a token transfer with the amount -1 gives a record whose amount
  is not positive, and a native transfer without an amount gives a record with the
  native symbol whose amount is \<open>NaN\<close>.
\<close>

theorem processed_amount_counterexample:
  "processTransaction rt0 (Some tx_negative_token) ''W'' =
     Inr (Some
       \<lparr>p_signature = ''sig1'', p_type = ''Send Token'', p_amount = Finite (- 1),
        p_timestamp = 1700000000, p_status = ''success'', p_tokenSymbol = ''Token'',
        p_fee = 5000, p_description = ''Sent -1 Token''\<rparr>)
   \<and> \<not> (0::real) < - 1
   \<and> processTransaction rt0 (Some tx_no_amount) ''W'' =
     Inr (Some
       \<lparr>p_signature = ''sig1'', p_type = ''Send SOL'', p_amount = NaN,
        p_timestamp = 1700000000, p_status = ''success'', p_tokenSymbol = ''SOL'',
        p_fee = 5000, p_description = ''Sent NaN SOL''\<rparr>)"
proof -
  have "processTransaction rt0 (Some tx_negative_token) ''W'' =
     Inr (Some
       \<lparr>p_signature = ''sig1'', p_type = ''Send Token'', p_amount = Finite (- 1),
        p_timestamp = 1700000000, p_status = ''success'', p_tokenSymbol = ''Token'',
        p_fee = 5000, p_description = ''Sent -1 Token''\<rparr>)"
    by code_simp
  moreover have "processTransaction rt0 (Some tx_no_amount) ''W'' =
     Inr (Some
       \<lparr>p_signature = ''sig1'', p_type = ''Send SOL'', p_amount = NaN,
        p_timestamp = 1700000000, p_status = ''success'', p_tokenSymbol = ''SOL'',
        p_fee = 5000, p_description = ''Sent NaN SOL''\<rparr>)"
    by code_simp
  ultimately show ?thesis by simp
qed

text \<open>
  C9 (as amended). When the first native transfer has a sender and a recipient that
  both differ from the wallet, the transaction has no token transfer, the serialized
  transaction matches none of the swap keywords and the amount in SOL passes the dust
  and zero filters, \<open>processTransaction\<close> returns a record whose type is the raw type
  string (\<open>Unknown\<close> when that is empty), whose description is empty and whose amount
  is that of the third-party transfer.
\<close>

theorem third_party_transfer_is_reported:
  assumes "nativeTransfers tx = Some (n # ns)"
    and "nt_fromUserAccount n \<noteq> w" and "nt_toUserAccount n \<noteq> w"
    and "\<not> has_items (tokenTransfers tx)"
    and "\<not> is_swap_text rt tx"
    and "\<not> js_less (js_divide (of_field (nt_amount n)) LAMPORTS_PER_SOL) (Finite MIN_SOL_AMOUNT)"
    and "js_divide (of_field (nt_amount n)) LAMPORTS_PER_SOL \<noteq> Finite 0"
  shows "processTransaction rt (Some tx) w =
     Inr (Some
       \<lparr>p_signature = or_str (signature tx) [],
        p_type = or_str (type tx) ''Unknown'',
        p_amount = js_divide (of_field (nt_amount n)) LAMPORTS_PER_SOL,
        p_timestamp = or_num (timestamp tx) (dateNow rt),
        p_status = ''success'',
        p_tokenSymbol = ''SOL'',
        p_fee = or_num (fee tx) 0,
        p_description = []\<rparr>)"
proof -
  from assms(4) have no_token: "tokenTransfers tx = None \<or> tokenTransfers tx = Some []"
    by (cases "tokenTransfers tx") (auto simp: has_items_def)
  with assms(1,2,3,5) have resolved:
    "resolved_locals rt tx w =
       \<lparr>l_type = or_str (type tx) ''Unknown'',
        l_amount = js_divide (of_field (nt_amount n)) LAMPORTS_PER_SOL,
        l_tokenSymbol = ''SOL'', l_description = []\<rparr>"
    by (auto simp: resolved_locals_def swap_step_def token_step_def native_step_def
        init_locals_def Let_def)
  show ?thesis
    unfolding processTransaction_Some resolved using assms(6,7)
    by simp
qed

lemma tx_third_not_swap: "is_swap_text rt0 tx_third = False"
  by code_simp

theorem third_party_transfer_is_reported_witness:
  "processTransaction rt0 (Some tx_third) ''W'' =
     Inr (Some
       \<lparr>p_signature = ''sig1'', p_type = ''TRANSFER'', p_amount = Finite 2,
        p_timestamp = 1700000000, p_status = ''success'', p_tokenSymbol = ''SOL'',
        p_fee = 5000, p_description = []\<rparr>)"
proof -
  have n: "nativeTransfers tx_third = Some (native ''A'' ''B'' 2000000000 # [])"
    by (simp add: tx_third_def example_tx_def)
  have amount: "js_divide (of_field (nt_amount (native ''A'' ''B'' 2000000000))) LAMPORTS_PER_SOL
      = Finite 2"
    by (simp add: native_def js_divide_def of_field_def LAMPORTS_PER_SOL_def)
  have side: "nt_fromUserAccount (native ''A'' ''B'' 2000000000) \<noteq> ''W''"
    "nt_toUserAccount (native ''A'' ''B'' 2000000000) \<noteq> ''W''"
    "\<not> has_items (tokenTransfers tx_third)"
    "\<not> js_less (js_divide (of_field (nt_amount (native ''A'' ''B'' 2000000000)))
           LAMPORTS_PER_SOL) (Finite MIN_SOL_AMOUNT)"
    "js_divide (of_field (nt_amount (native ''A'' ''B'' 2000000000))) LAMPORTS_PER_SOL
       \<noteq> Finite 0"
    unfolding amount
    by (simp_all add: native_def tx_third_def example_tx_def has_items_def MIN_SOL_AMOUNT_def)
  have swap: "\<not> is_swap_text rt0 tx_third"
    by (simp add: tx_third_not_swap)
  have fields: "signature tx_third = ''sig1''" "type tx_third = ''TRANSFER''"
    "timestamp tx_third = 1700000000" "fee tx_third = 5000"
    by (simp_all add: tx_third_def example_tx_def)
  from third_party_transfer_is_reported[OF n side(1,2,3) swap side(4,5)]
  show ?thesis
    by (simp add: amount fields or_str_def or_num_def)
qed

text \<open>
  C9 as stated fails: with the type \<open>SWAP\<close> the type and the description are replaced,
  with a token transfer the type, the description and the amount are those of the token
  transfer, and an empty type string becomes \<open>Unknown\<close>.
\<close>

theorem third_party_transfer_counterexample:
  "processTransaction rt0 (Some tx_third_swap) ''W'' =
     Inr (Some
       \<lparr>p_signature = ''sig1'', p_type = ''Swap'', p_amount = Finite 2,
        p_timestamp = 1700000000, p_status = ''success'', p_tokenSymbol = ''SOL'',
        p_fee = 5000, p_description = ''Token Swap''\<rparr>)
   \<and> processTransaction rt0 (Some tx_third_token) ''W'' =
     Inr (Some
       \<lparr>p_signature = ''sig1'', p_type = ''Send Token'', p_amount = Finite 7,
        p_timestamp = 1700000000, p_status = ''success'', p_tokenSymbol = ''Token'',
        p_fee = 5000, p_description = ''Sent 7 Token''\<rparr>)
   \<and> processTransaction rt0 (Some tx_third_untyped) ''W'' =
     Inr (Some
       \<lparr>p_signature = ''sig1'', p_type = ''Unknown'', p_amount = Finite 2,
        p_timestamp = 1700000000, p_status = ''success'', p_tokenSymbol = ''SOL'',
        p_fee = 5000, p_description = []\<rparr>)"
  by code_simp


end
